theory Spec2Isabelle
  imports Main "HOL-Library.Sublist"
begin

section \<open>Python strings\<close>

text \<open>
  A Python \<^verbatim>\<open>str\<close> is a sequence of Unicode code points: \<^verbatim>\<open>len\<close>, slicing, \<^verbatim>\<open>re\<close>
  and \<^verbatim>\<open>str.strip\<close> all work per code point. A string is therefore a list of code
  points (natural numbers), not a list of bytes. \<open>ascii\<close> writes the ASCII literals of
  the source.
\<close>

type_synonym codepoint = nat
type_synonym pystr = "codepoint list"

definition ascii :: "string \<Rightarrow> pystr" where
  "ascii s = map of_char s"

definition backslash :: codepoint where
  "backslash = 92"

definition squote :: codepoint where
  "squote = 39"

definition underscore :: codepoint where
  "underscore = 95"

definition space :: codepoint where
  "space = 32"

text \<open>
  Whitespace as CPython's \<^verbatim>\<open>Py_UNICODE_ISSPACE\<close> has it. Both the class \<^verbatim>\<open>\s\<close> of a
  \<^verbatim>\<open>str\<close> pattern and \<^verbatim>\<open>str.strip()\<close> without argument are decided by it: the ASCII
  controls TAB..CR and FS..US, the space, NEL, NBSP, and the Unicode space separators
  and line/paragraph separators.
\<close>

definition isspace :: "codepoint \<Rightarrow> bool" where
  "isspace c =
     ((9 \<le> c \<and> c \<le> 13) \<or> (28 \<le> c \<and> c \<le> 32) \<or> c = 133 \<or> c = 160 \<or> c = 5760 \<or>
      (8192 \<le> c \<and> c \<le> 8202) \<or> c = 8232 \<or> c = 8233 \<or> c = 8239 \<or> c = 8287 \<or>
      c = 12288)"

text \<open>\<^verbatim>\<open>s.endswith(suffix)\<close>, \<^verbatim>\<open>s.startswith(prefix)\<close> and \<^verbatim>\<open>sub in s\<close>.\<close>

definition endswith :: "pystr \<Rightarrow> pystr \<Rightarrow> bool" where
  "endswith s suf = suffix suf s"

definition startswith :: "pystr \<Rightarrow> pystr \<Rightarrow> bool" where
  "startswith s pre = prefix pre s"

definition str_contains :: "pystr \<Rightarrow> pystr \<Rightarrow> bool" where
  "str_contains s sub = sublist sub s"

text \<open>\<^verbatim>\<open>s.strip()\<close>: whitespace is removed from both ends.\<close>

definition strip :: "pystr \<Rightarrow> pystr" where
  "strip s = rev (dropWhile isspace (rev (dropWhile isspace s)))"

text \<open>
  \<^verbatim>\<open>s.split(sep)\<close> for a separator of one character: the pieces between the
  occurrences of \<open>sep\<close>, empty pieces included; the empty string gives one empty piece.
\<close>

fun split :: "codepoint \<Rightarrow> pystr \<Rightarrow> pystr list" where
  "split sep [] = [[]]"
| "split sep (c # cs) =
     (if c = sep then [] # split sep cs
      else (case split sep cs of
              [] \<Rightarrow> [[c]]
            | p # ps \<Rightarrow> (c # p) # ps))"


section \<open>The filename sanitizer\<close>

text \<open>
  \<^verbatim>\<open>
  def safe_filename(text):
      text = re.sub(r'[<>:"/\\|?*]', ' ', text)
      text = re.sub(r'\s+', '_', text).strip()
      if text.endswith('.'):
          text = text[:-1]
      return text[:200]
  \<close>
\<close>

text \<open>The character class \<^verbatim>\<open>[<>:"/\\|?*]\<close>.\<close>

definition reserved :: "codepoint list" where
  \<open>reserved = ascii ''<>:"/'' @ [backslash] @ ascii ''|?*''\<close>

text \<open>\<^verbatim>\<open>re.sub(r'[<>:"/\\|?*]', ' ', text)\<close>: every reserved character becomes a space.\<close>

definition sub_reserved :: "pystr \<Rightarrow> pystr" where
  "sub_reserved text = map (\<lambda>c. if c \<in> set reserved then space else c) text"

text \<open>
  \<^verbatim>\<open>re.sub(r'\s+', '_', text)\<close>: scanning from the left, every maximal run of whitespace
  (the match of \<^verbatim>\<open>\s+\<close> is greedy) becomes one underscore.
\<close>

function sub_whitespace :: "pystr \<Rightarrow> pystr" where
  "sub_whitespace [] = []"
| "sub_whitespace (c # cs) =
     (if isspace c then underscore # sub_whitespace (dropWhile isspace cs)
      else c # sub_whitespace cs)"
  by pat_completeness auto
termination
  by (relation "measure length") (auto simp: length_dropWhile_le less_Suc_eq_le)

definition safe_filename :: "pystr \<Rightarrow> pystr" where
  "safe_filename text =
     (let text1 = sub_reserved text;
          text2 = strip (sub_whitespace text1);
          text3 = (if endswith text2 (ascii ''.'') then butlast text2 else text2)
      in take 200 text3)"


section \<open>The environment of the scraper\<close>

text \<open>
  \<^verbatim>\<open>scrape_powerdms_site\<close> calls three libraries: \<^verbatim>\<open>urllib.parse.urlparse\<close>, the
  \<^verbatim>\<open>requests\<close> session and the \<^verbatim>\<open>json\<close> decoder behind \<^verbatim>\<open>response.json()\<close>. What
  they return or raise is the input of the model.
\<close>

text \<open>\<^verbatim>\<open>urlparse(url)\<close>: it raises (a \<^verbatim>\<open>ValueError\<close>), or gives a network location and a path.\<close>

datatype urlparse_result =
    UrlparseRaises
  | ParseResult (netloc: pystr) (path: pystr)

text \<open>
  The exceptions of the second \<^verbatim>\<open>try\<close> block and of the lines after it.
  \<^item> \<open>HTTPError status\<close>: raised by \<^verbatim>\<open>response.raise_for_status()\<close>; a subclass of
    \<^verbatim>\<open>requests.exceptions.RequestException\<close>.
  \<^item> \<open>ConnectionFailed\<close>: what \<^verbatim>\<open>session.get\<close> raises (connection error, timeout, ...);
    a \<^verbatim>\<open>RequestException\<close>.
  \<^item> \<open>DecodeFailed r j\<close>: what \<^verbatim>\<open>response.json()\<close> raises on a body that is not JSON.
    Its class depends on the installed library, so the two facts the handlers test are
    fields: \<open>r\<close>, it is a \<^verbatim>\<open>RequestException\<close>; \<open>j\<close>, it is a \<^verbatim>\<open>json.JSONDecodeError\<close>.
    From requests 2.27 on, \<^verbatim>\<open>response.json()\<close> raises
    \<^verbatim>\<open>requests.exceptions.JSONDecodeError\<close>, declared as
    \<^verbatim>\<open>class JSONDecodeError(InvalidJSONError, CompatJSONDecodeError)\<close> with
    \<^verbatim>\<open>class InvalidJSONError(RequestException)\<close>: both fields are true. Before 2.27 it
    let the decoder's own \<^verbatim>\<open>json.JSONDecodeError\<close> through: \<open>r\<close> false, \<open>j\<close> true.
  \<^item> \<open>AttributeError\<close>: \<^verbatim>\<open>data.get\<close> on a decoded value that is not a dict.
\<close>

datatype exn =
    HTTPError nat
  | ConnectionFailed
  | DecodeFailed bool bool
  | AttributeError

fun is_HTTPError :: "exn \<Rightarrow> bool" where
  "is_HTTPError (HTTPError status) = True"
| "is_HTTPError e = False"

fun is_RequestException :: "exn \<Rightarrow> bool" where
  "is_RequestException (HTTPError status) = True"
| "is_RequestException ConnectionFailed = True"
| "is_RequestException (DecodeFailed r j) = r"
| "is_RequestException AttributeError = False"

fun is_JSONDecodeError :: "exn \<Rightarrow> bool" where
  "is_JSONDecodeError (DecodeFailed r j) = j"
| "is_JSONDecodeError e = False"

text \<open>
  A document record is a dict from keys to strings: the data model's DocumentRecord,
  whose \<^verbatim>\<open>name\<close> and \<^verbatim>\<open>publicUrl\<close> are strings when present. \<^verbatim>\<open>doc.get(key, default)\<close>:
\<close>

type_synonym doc = "pystr \<rightharpoonup> pystr"

definition dict_get :: "doc \<Rightarrow> pystr \<Rightarrow> pystr \<Rightarrow> pystr" where
  "dict_get d key dflt = (case d key of None \<Rightarrow> dflt | Some v \<Rightarrow> v)"

text \<open>
  The decoded body, as far as the code looks into it: a dict with the value of its
  \<^verbatim>\<open>data\<close> member (\<open>None\<close> when the key is absent: \<^verbatim>\<open>data.get('data')\<close> is \<^verbatim>\<open>None\<close>), or
  any other JSON value. The member is a list of document records, or any other value
  (\<^verbatim>\<open>null\<close> included).
\<close>

datatype data_member =
    DataList "doc list"
  | DataOther

datatype json_value =
    JsonDict "data_member option"
  | JsonOther

datatype json_result =
    JsonRaises bool bool
  | JsonReturns json_value

datatype response =
    Response (status_code: nat) (response_text: pystr) (response_json: json_result)

datatype get_result =
    GetRaises
  | GetReturns response


section \<open>What a run leaves behind\<close>

text \<open>
  The diagnostic the run prints last, and the files it wrote, in order. The messages
  are those of the source:
  \<^item> \<open>Not_valid_PowerDMS_URL\<close>: "! ERROR: This does not appear to be a valid public PowerDMS URL."
  \<^item> \<open>Could_not_parse_URL\<close>: "! ERROR: Could not parse the provided URL."
  \<^item> \<open>HTTP_ERROR status url\<close>: "! HTTP ERROR: {status} for URL {url}"
  \<^item> \<open>REQUEST_ERROR\<close>: "! REQUEST ERROR: Could not connect to the server."
  \<^item> \<open>Failed_to_decode_JSON\<close>: "! ERROR: Failed to decode JSON. ..."
  \<^item> \<open>No_data_list\<close>: "! ERROR: The JSON response does not contain a 'data' list."
  \<^item> \<open>No_public_documents\<close>: "! No public documents were found at this endpoint."
  \<^item> \<open>ALL_DONE\<close>: "ALL DONE!"
  \<^item> \<open>Uncaught e\<close>: no handler took the exception; the run ends with a traceback.
\<close>

datatype message =
    Not_valid_PowerDMS_URL
  | Could_not_parse_URL
  | HTTP_ERROR nat pystr
  | REQUEST_ERROR
  | Failed_to_decode_JSON
  | No_data_list
  | No_public_documents
  | ALL_DONE
  | Uncaught exn

text \<open>
  File contents: text written with \<^verbatim>\<open>f.write\<close>, the rows handed to \<^verbatim>\<open>csv.writer\<close>, or
  the value handed to \<^verbatim>\<open>json.dump\<close>.
\<close>

datatype content =
    Text pystr
  | CsvRows "pystr list list"
  | JsonDump json_value

record run =
  message :: message
  files :: "(pystr \<times> content) list"


section \<open>The artifact writer\<close>

text \<open>
  \<^verbatim>\<open>os.path.join(a, b)\<close> of \<^verbatim>\<open>posixpath\<close> (the script is a \<^verbatim>\<open>/bin/sh\<close> script): an
  absolute \<open>b\<close> replaces \<open>a\<close>; otherwise a slash is put between them unless \<open>a\<close> is empty
  or ends with one.
\<close>

definition os_path_join :: "pystr \<Rightarrow> pystr \<Rightarrow> pystr" where
  "os_path_join a b =
     (if startswith b (ascii ''/'') then b
      else if a = [] \<or> endswith a (ascii ''/'') then a @ b
      else a @ ascii ''/'' @ b)"

text \<open>The three f-strings of the loop (lines 125, 133 and 135).\<close>

definition skipping_comment :: "pystr \<Rightarrow> pystr" where
  "skipping_comment name =
     ascii ''# SKIPPING: No publicUrl found for '' @ [squote] @ name @ [squote] @
     ascii ''\<newline>\<newline>''"

definition echo_command :: "pystr \<Rightarrow> pystr" where
  \<open>echo_command name = ascii ''echo "Downloading: '' @ name @ ascii ''"\<newline>''\<close>

definition wget_command :: "pystr \<Rightarrow> pystr \<Rightarrow> pystr" where
  \<open>wget_command full_output_path public_url =
     ascii ''wget -U "Mozilla/5.0" --no-check-certificate -O "'' @ full_output_path @
     ascii ''" "'' @ public_url @ ascii ''"\<newline>\<newline>''\<close>

text \<open>
  The body of the loop over the documents (lines 120 to 135): the strings it writes
  for one document, one per \<^verbatim>\<open>f.write\<close>.
\<close>

definition script_entry :: "pystr \<Rightarrow> doc \<Rightarrow> pystr list" where
  "script_entry download_dir d =
     (let name = dict_get d (ascii ''name'') (ascii ''no-name-found'');
          public_url = dict_get d (ascii ''publicUrl'') (ascii ''no-url-found'')
      in if str_contains public_url (ascii ''no-url-found'')
         then [skipping_comment name]
         else (let output_filename = safe_filename name @ ascii ''.pdf'';
                   full_output_path = os_path_join download_dir output_filename
               in [echo_command name, wget_command full_output_path public_url]))"

text \<open>All the \<^verbatim>\<open>f.write\<close> calls on the script file (lines 115 to 135), in order.\<close>

definition script_header :: "pystr \<Rightarrow> pystr list" where
  \<open>script_header download_dir =
     [ascii ''#!/bin/sh\<newline>'',
      ascii ''# Auto-generated PowerDMS download script\<newline>\<newline>'',
      ascii ''# Create the download directory if it doesn'' @ [squote] @
        ascii ''t exist\<newline>'',
      ascii ''mkdir -p "'' @ download_dir @ ascii ''"\<newline>\<newline>'']\<close>

definition script_writes :: "pystr \<Rightarrow> doc list \<Rightarrow> pystr list" where
  "script_writes download_dir documents =
     script_header download_dir @ concat (map (script_entry download_dir) documents)"

text \<open>The rows handed to the CSV writer (lines 105 to 109).\<close>

definition csv_rows :: "doc list \<Rightarrow> pystr list list" where
  "csv_rows documents =
     [ascii ''name'', ascii ''url''] #
     map (\<lambda>d. [dict_get d (ascii ''name'') (ascii ''no-name-found''),
               dict_get d (ascii ''publicUrl'') (ascii ''no-url-found'')]) documents"

text \<open>Sections 4 to 6 of the function: the two files, the CSV first.\<close>

definition write_artifacts :: "pystr \<Rightarrow> doc list \<Rightarrow> (pystr \<times> content) list" where
  "write_artifacts site_name documents =
     (let download_dir = ascii ''downloaded_'' @ site_name;
          csv_filename = site_name @ ascii ''_documents.csv'';
          script_filename = ascii ''download_'' @ site_name @ ascii ''.sh''
      in [(csv_filename, CsvRows (csv_rows documents)),
          (script_filename, Text (concat (script_writes download_dir documents)))])"


section \<open>The pipeline\<close>

text \<open>
  Section 3 of the function (lines 82 to 92), followed by the writer: what happens
  to a decoded body.
\<close>

definition handle_data :: "pystr \<Rightarrow> json_value \<Rightarrow> run" where
  "handle_data site_name data =
     (case data of
        JsonOther \<Rightarrow> \<lparr>message = Uncaught AttributeError, files = []\<rparr>
      | JsonDict None \<Rightarrow>
          \<lparr>message = No_data_list, files = [(ascii ''debug.json'', JsonDump data)]\<rparr>
      | JsonDict (Some DataOther) \<Rightarrow>
          \<lparr>message = No_data_list, files = [(ascii ''debug.json'', JsonDump data)]\<rparr>
      | JsonDict (Some (DataList documents)) \<Rightarrow>
          if documents = [] then \<lparr>message = No_public_documents, files = []\<rparr>
          else \<lparr>message = ALL_DONE, files = write_artifacts site_name documents\<rparr>)"

text \<open>
  The handlers of the second \<^verbatim>\<open>try\<close> (lines 67 to 79), tried in the order of the
  source. The third one reads \<^verbatim>\<open>response.text\<close>.
\<close>

definition handle_exception :: "pystr \<Rightarrow> pystr \<Rightarrow> exn \<Rightarrow> run" where
  "handle_exception json_api_url body e =
     (if is_HTTPError e then
        \<lparr>message = (case e of HTTPError status \<Rightarrow> HTTP_ERROR status json_api_url
                              | _ \<Rightarrow> Uncaught e),
         files = []\<rparr>
      else if is_RequestException e then \<lparr>message = REQUEST_ERROR, files = []\<rparr>
      else if is_JSONDecodeError e then
        \<lparr>message = Failed_to_decode_JSON,
         files = [(ascii ''error_response.html'', Text body)]\<rparr>
      else \<lparr>message = Uncaught e, files = []\<rparr>)"

text \<open>
  Section 2 (lines 52 to 79) and what follows it. \<^verbatim>\<open>raise_for_status\<close> raises for a
  status from 400 to 599.
\<close>

definition fetch_and_write :: "(pystr \<Rightarrow> get_result) \<Rightarrow> pystr \<Rightarrow> pystr \<Rightarrow> run" where
  "fetch_and_write session_get site_name json_api_url =
     (case session_get json_api_url of
        GetRaises \<Rightarrow> handle_exception json_api_url [] ConnectionFailed
      | GetReturns r \<Rightarrow>
          if 400 \<le> status_code r \<and> status_code r < 600
          then handle_exception json_api_url (response_text r) (HTTPError (status_code r))
          else (case response_json r of
                  JsonRaises rq js \<Rightarrow>
                    handle_exception json_api_url (response_text r) (DecodeFailed rq js)
                | JsonReturns data \<Rightarrow> handle_data site_name data))"

text \<open>
  \<^verbatim>\<open>scrape_powerdms_site(url)\<close>, with the two library calls as parameters. Section 1
  (lines 32 to 49) derives the site name and the endpoint.
\<close>

definition scrape_powerdms_site ::
    "(pystr \<Rightarrow> urlparse_result) \<Rightarrow> (pystr \<Rightarrow> get_result) \<Rightarrow> pystr \<Rightarrow> run" where
  "scrape_powerdms_site urlparse session_get url =
     (case urlparse url of
        UrlparseRaises \<Rightarrow> \<lparr>message = Could_not_parse_URL, files = []\<rparr>
      | ParseResult domain url_path \<Rightarrow>
          (let path_parts = filter (\<lambda>part. part \<noteq> []) (split (of_char CHR ''/'') url_path)
           in if \<not> endswith domain (ascii ''powerdms.com'') \<or> path_parts = []
              then \<lparr>message = Not_valid_PowerDMS_URL, files = []\<rparr>
              else (let site_name = hd path_parts;
                        json_api_url =
                          ascii ''https://'' @ domain @ ascii ''/'' @ site_name @
                          ascii ''/documents''
                    in fetch_and_write session_get site_name json_api_url)))"


section \<open>Evaluation\<close>

text \<open>The defining equations that compute the model on concrete strings.\<close>

lemmas str_eval =
  ascii_def str_contains_def sublist_code endswith_def startswith_def suffix_to_prefix

lemmas sf_eval =
  safe_filename_def ascii_def sub_reserved_def reserved_def strip_def isspace_def
  endswith_def underscore_def space_def backslash_def suffix_to_prefix

lemmas run_eval =
  scrape_powerdms_site_def Let_def fetch_and_write_def handle_data_def handle_exception_def


section \<open>Properties of the sanitizer\<close>

lemma underscore_not_space: "\<not> isspace underscore"
  by (simp add: isspace_def underscore_def)

lemma reserved_codes: "reserved = [60, 62, 58, 34, 47, 92, 124, 63, 42]"
  by (simp add: reserved_def ascii_def backslash_def)

lemma underscore_not_reserved: "underscore \<notin> set reserved"
  by (simp add: reserved_codes underscore_def)

lemma space_not_reserved: "space \<notin> set reserved"
  by (simp add: reserved_codes space_def)

lemma slash_reserved: "of_char CHR ''/'' \<in> set reserved"
  by (simp add: reserved_codes)

lemma set_sub_reserved: "set (sub_reserved s) \<inter> set reserved = {}"
  using space_not_reserved by (auto simp: sub_reserved_def)

lemma sub_reserved_id: "set s \<inter> set reserved = {} \<Longrightarrow> sub_reserved s = s"
  by (induction s) (auto simp: sub_reserved_def)

lemma set_sub_whitespace: "set (sub_whitespace s) \<subseteq> insert underscore (set s)"
proof (induction s rule: sub_whitespace.induct)
  case 1
  show ?case by simp
next
  case (2 c cs)
  show ?case
  proof (cases "isspace c")
    case True
    with "2.IH"(1) have "set (sub_whitespace (dropWhile isspace cs)) \<subseteq> insert underscore (set cs)"
      using set_dropWhileD [of _ isspace cs] by blast
    with True show ?thesis by auto
  next
    case False
    with "2.IH"(2) show ?thesis by auto
  qed
qed

lemma sub_whitespace_no_space: "c \<in> set (sub_whitespace s) \<Longrightarrow> \<not> isspace c"
proof (induction s rule: sub_whitespace.induct)
  case 1
  then show ?case by simp
next
  case (2 d ds)
  then show ?case
    using underscore_not_space by (cases "isspace d") auto
qed

lemma sub_whitespace_id: "(\<And>c. c \<in> set s \<Longrightarrow> \<not> isspace c) \<Longrightarrow> sub_whitespace s = s"
  by (induction s) auto

text \<open>
  After the whitespace runs have become underscores no whitespace is left, so the
  \<^verbatim>\<open>.strip()\<close> that follows \<^verbatim>\<open>re.sub(r'\s+', '_', text)\<close> removes nothing.
\<close>

lemma strip_no_space: "(\<And>c. c \<in> set s \<Longrightarrow> \<not> isspace c) \<Longrightarrow> strip s = s"
proof -
  assume ns: "\<And>c. c \<in> set s \<Longrightarrow> \<not> isspace c"
  have a: "dropWhile isspace s = s"
    using ns by (cases s) auto
  have b: "dropWhile isspace (rev s) = rev s"
    using ns by (cases "rev s") (auto dest: arg_cong [where f = set])
  show ?thesis
    by (simp add: strip_def a b)
qed

lemma strip_sub_whitespace: "strip (sub_whitespace s) = sub_whitespace s"
  by (rule strip_no_space) (rule sub_whitespace_no_space)

lemma set_safe_filename_sub: "set (safe_filename s) \<subseteq> set (sub_whitespace (sub_reserved s))"
proof -
  let ?t2 = "sub_whitespace (sub_reserved s)"
  show ?thesis
    using set_take_subset [of 200 ?t2] set_take_subset [of 200 "butlast ?t2"]
    by (auto simp: safe_filename_def Let_def strip_sub_whitespace dest: in_set_butlastD)
qed

lemma safe_filename_reserved_free: "set (safe_filename s) \<inter> set reserved = {}"
  using set_safe_filename_sub [of s] set_sub_whitespace [of "sub_reserved s"]
    set_sub_reserved [of s] underscore_not_reserved
  by blast

lemma safe_filename_no_space: "c \<in> set (safe_filename s) \<Longrightarrow> \<not> isspace c"
  using set_safe_filename_sub [of s] sub_whitespace_no_space by blast

lemma length_safe_filename: "length (safe_filename s) \<le> 200"
  by (simp add: safe_filename_def Let_def)

text \<open>
  C5: whatever the input, none of the reserved characters
  \<^verbatim>\<open>< > : " / \ | ? *\<close> occurs in the output of \<open>safe_filename\<close>.
\<close>

theorem safe_filename_no_reserved: "set (safe_filename title) \<inter> set reserved = {}"
  by (rule safe_filename_reserved_free)

text \<open>
  A second application of the sanitizer only has the trailing dot left to work on:
  its input has no reserved character, no whitespace and at most 200 characters.
\<close>

lemma safe_filename_again:
  "safe_filename (safe_filename s) =
     (if endswith (safe_filename s) (ascii ''.'') then butlast (safe_filename s)
      else safe_filename s)"
proof -
  let ?y = "safe_filename s"
  have r: "sub_reserved ?y = ?y"
    by (rule sub_reserved_id) (rule safe_filename_reserved_free)
  have w: "sub_whitespace ?y = ?y"
    by (rule sub_whitespace_id) (rule safe_filename_no_space)
  have st: "strip ?y = ?y"
    by (rule strip_no_space) (rule safe_filename_no_space)
  have l: "length ?y \<le> 200"
    by (rule length_safe_filename)
  show ?thesis
    unfolding safe_filename_def [of ?y] Let_def r w st
    using l by (auto intro: order_trans [OF diff_le_self])
qed

text \<open>
  So the sanitizer is idempotent at exactly the inputs whose sanitized form does not
  end with a dot.
\<close>

lemma safe_filename_idem_iff:
  "safe_filename (safe_filename s) = safe_filename s \<longleftrightarrow>
     \<not> endswith (safe_filename s) (ascii ''.'')"
proof (cases "endswith (safe_filename s) (ascii ''.'')")
  case True
  then have "safe_filename s \<noteq> []"
    by (auto simp: endswith_def ascii_def)
  then have "length (butlast (safe_filename s)) \<noteq> length (safe_filename s)"
    by (cases "safe_filename s") auto
  then have "butlast (safe_filename s) \<noteq> safe_filename s"
    by (rule contrapos_nn) (erule arg_cong)
  with True show ?thesis
    by (simp add: safe_filename_again)
next
  case False
  then show ?thesis
    by (simp add: safe_filename_again)
qed

text \<open>
  C2: the sanitizer is idempotent, \<open>safe_filename (safe_filename x) = safe_filename x\<close>.
  The code does not have the property. Only one trailing dot is dropped, so \<^verbatim>\<open>a..\<close>
  is sanitized to \<^verbatim>\<open>a.\<close>, which still ends with the dot that the source's comment
  ("A filename cannot end with a dot in Windows") rules out, and a second application
  gives \<^verbatim>\<open>a\<close>.
\<close>

theorem safe_filename_not_idempotent:
  "safe_filename (ascii ''a..'') = ascii ''a.'' \<and>
   safe_filename (safe_filename (ascii ''a..'')) = ascii ''a'' \<and>
   safe_filename (safe_filename (ascii ''a..'')) \<noteq> safe_filename (ascii ''a..'')"
  by (simp add: sf_eval)

text \<open>
  An input made of reserved characters and whitespace only, and not empty, becomes one
  underscore: the whole input is one run of whitespace after the first substitution.
\<close>

lemma safe_filename_reserved_or_space_only:
  assumes "s \<noteq> []" and "\<And>c. c \<in> set s \<Longrightarrow> c \<in> set reserved \<or> isspace c"
  shows "safe_filename s = [underscore]"
proof -
  have sp: "isspace space"
    by (simp add: isspace_def space_def)
  have all: "\<And>c. c \<in> set (sub_reserved s) \<Longrightarrow> isspace c"
    using assms(2) sp by (auto simp: sub_reserved_def)
  have ne: "sub_reserved s \<noteq> []"
    using assms(1) by (simp add: sub_reserved_def)
  have dw: "\<And>cs. (\<And>c. c \<in> set cs \<Longrightarrow> isspace c) \<Longrightarrow> dropWhile isspace cs = []"
    by simp
  have "sub_whitespace (sub_reserved s) = [underscore]"
    using ne all by (cases "sub_reserved s") (auto simp: dw)
  then show ?thesis
    by (simp add: safe_filename_def Let_def strip_sub_whitespace endswith_def ascii_def
        underscore_def suffix_to_prefix)
qed

text \<open>
  C3: the sanitizer strips the leading and trailing underscores that the whitespace
  collapse produces, and an input of reserved characters and whitespace only is
  sanitized to the empty string.
  The code does not do this. Its \<^verbatim>\<open>.strip()\<close> is applied after the whitespace has
  already become underscores and strips whitespace, so it removes nothing: the title
  \<^verbatim>\<open> a \<close> becomes \<^verbatim>\<open>_a_\<close>, and \<^verbatim>\<open>? *\<close> becomes \<^verbatim>\<open>_\<close>, not the empty string.
\<close>

theorem safe_filename_keeps_underscores:
  "safe_filename (ascii '' a '') = ascii ''_a_'' \<and>
   safe_filename (ascii ''? *'') = ascii ''_'' \<and>
   ascii ''_'' \<noteq> []"
  by (simp add: sf_eval)


section \<open>Properties of the output path\<close>


lemma output_filename_not_absolute:
  "\<not> startswith (safe_filename n @ ascii ''.pdf'') (ascii ''/'')"
proof (cases "safe_filename n")
  case Nil
  then show ?thesis
    by (simp add: startswith_def ascii_def)
next
  case (Cons c cs)
  then have "c \<in> set (safe_filename n)"
    by simp
  with safe_filename_reserved_free [of n] slash_reserved have "c \<noteq> of_char CHR ''/''"
    by blast
  with Cons show ?thesis
    by (simp add: startswith_def ascii_def)
qed

lemma download_dir_no_trailing_slash:
  assumes "of_char CHR ''/'' \<notin> set site_name"
  shows "\<not> endswith (ascii ''downloaded_'' @ site_name) (ascii ''/'')"
proof (cases site_name rule: rev_cases)
  case Nil
  then show ?thesis
    by (simp add: endswith_def ascii_def suffix_to_prefix)
next
  case (snoc cs c)
  with assms show ?thesis
    by (auto simp: endswith_def ascii_def suffix_def)
qed

text \<open>
  The site name is a piece of the path between slashes, so \<^verbatim>\<open>os.path.join\<close> always
  puts the file into the download directory.
\<close>

lemma full_output_path:
  assumes "of_char CHR ''/'' \<notin> set site_name"
  shows "os_path_join (ascii ''downloaded_'' @ site_name) (safe_filename n @ ascii ''.pdf'') =
         ascii ''downloaded_'' @ site_name @ ascii ''/'' @ safe_filename n @ ascii ''.pdf''"
  using download_dir_no_trailing_slash [OF assms] output_filename_not_absolute [of n]
  by (simp add: os_path_join_def ascii_def)


section \<open>Properties of the script writer\<close>

lemma script_entry_skip:
  "str_contains (dict_get d (ascii ''publicUrl'') (ascii ''no-url-found'')) (ascii ''no-url-found'') \<Longrightarrow>
   script_entry dd d = [skipping_comment (dict_get d (ascii ''name'') (ascii ''no-name-found''))]"
  by (simp add: script_entry_def Let_def)

lemma script_entry_download:
  "\<not> str_contains (dict_get d (ascii ''publicUrl'') (ascii ''no-url-found'')) (ascii ''no-url-found'') \<Longrightarrow>
   script_entry dd d =
     [echo_command (dict_get d (ascii ''name'') (ascii ''no-name-found'')),
      wget_command
        (os_path_join dd
           (safe_filename (dict_get d (ascii ''name'') (ascii ''no-name-found'')) @ ascii ''.pdf''))
        (dict_get d (ascii ''publicUrl'') (ascii ''no-url-found''))]"
  by (simp add: script_entry_def Let_def)

text \<open>A record without \<^verbatim>\<open>publicUrl\<close> gets the comment and no download.\<close>

lemma script_entry_missing_url:
  "d (ascii ''publicUrl'') = None \<Longrightarrow>
   script_entry dd d = [skipping_comment (dict_get d (ascii ''name'') (ascii ''no-name-found''))]"
  by (simp add: script_entry_def Let_def dict_get_def str_contains_def)

text \<open>
  C1: a record is skipped (a comment, no download line) when its \<^verbatim>\<open>publicUrl\<close> equals
  the sentinel \<^verbatim>\<open>no-url-found\<close>, and otherwise gets the echo line and one download
  invocation.
  The code does not decide by equality: its test is \<^verbatim>\<open>'no-url-found' in public_url\<close>,
  a substring test. A record whose URL is present and merely contains the sentinel
  text is skipped, under a comment that says no publicUrl was found.
\<close>

theorem script_entry_skips_url_containing_sentinel:
  "script_entry dd [ascii ''name'' \<mapsto> ascii ''Policy'',
                    ascii ''publicUrl'' \<mapsto> ascii ''https://host/no-url-found.pdf''] =
     [skipping_comment (ascii ''Policy'')] \<and>
   ascii ''https://host/no-url-found.pdf'' \<noteq> ascii ''no-url-found''"
  by (simp add: script_entry_def Let_def dict_get_def str_eval)

text \<open>What is written for one document is a contiguous part of the script.\<close>

lemma entry_in_script:
  assumes "d \<in> set documents"
  shows "sublist (concat (script_entry dd d)) (concat (script_writes dd documents))"
proof -
  from assms obtain ds1 ds2 where "documents = ds1 @ d # ds2"
    by (auto dest: split_list)
  then have "concat (script_writes dd documents) =
      (concat (script_header dd) @ concat (concat (map (script_entry dd) ds1))) @
      concat (script_entry dd d) @ concat (concat (map (script_entry dd) ds2))"
    by (simp add: script_writes_def)
  then show ?thesis
    by (metis sublist_appendI)
qed

text \<open>
  C10: nothing escapes the server's text outside the output path. For every record of
  the catalog, the raw name stands between the quotes of the skip comment or of the
  echo line, and the raw URL between the double quotes of the download argument, so
  a double quote inside either appears as it is in the script.
\<close>

theorem script_embeds_raw_text:
  assumes "d \<in> set documents"
  shows "if str_contains (dict_get d (ascii ''publicUrl'') (ascii ''no-url-found''))
              (ascii ''no-url-found'')
         then sublist
                (ascii ''for '' @ [squote] @ dict_get d (ascii ''name'') (ascii ''no-name-found'') @
                 [squote])
                (concat (script_writes dd documents))
         else sublist
                (ascii ''echo \"Downloading: '' @
                 dict_get d (ascii ''name'') (ascii ''no-name-found'') @ ascii ''\"'')
                (concat (script_writes dd documents)) \<and>
              sublist
                (ascii ''\" \"'' @ dict_get d (ascii ''publicUrl'') (ascii ''no-url-found'') @
                 ascii ''\"'')
                (concat (script_writes dd documents))"
proof -
  let ?name = "dict_get d (ascii ''name'') (ascii ''no-name-found'')"
  let ?u = "dict_get d (ascii ''publicUrl'') (ascii ''no-url-found'')"
  let ?script = "concat (script_writes dd documents)"
  note e = entry_in_script [OF assms, of dd]
  show ?thesis
  proof (cases "str_contains ?u (ascii ''no-url-found'')")
    case True
    have "skipping_comment ?name =
        ascii ''# SKIPPING: No publicUrl found '' @ (ascii ''for '' @ [squote] @ ?name @ [squote]) @
        ascii ''\<newline>\<newline>''"
      by (simp add: skipping_comment_def ascii_def)
    then have "sublist (ascii ''for '' @ [squote] @ ?name @ [squote]) (skipping_comment ?name)"
      by (simp only: sublist_appendI)
    with e True show ?thesis
      by (auto simp: script_entry_skip intro: sublist_order.order_trans)
  next
    case False
    let ?p = "os_path_join dd (safe_filename ?name @ ascii ''.pdf'')"
    have "echo_command ?name @ wget_command ?p ?u =
        [] @ (ascii ''echo \"Downloading: '' @ ?name @ ascii ''\"'') @
        (ascii ''\<newline>'' @ wget_command ?p ?u)"
      by (simp add: echo_command_def ascii_def)
    then have a: "sublist (ascii ''echo \"Downloading: '' @ ?name @ ascii ''\"'')
        (echo_command ?name @ wget_command ?p ?u)"
      by (simp only: sublist_appendI)
    have "echo_command ?name @ wget_command ?p ?u =
        (echo_command ?name @
         ascii ''wget -U \"Mozilla/5.0\" --no-check-certificate -O \"'' @ ?p) @
        (ascii ''\" \"'' @ ?u @ ascii ''\"'') @ ascii ''\<newline>\<newline>''"
      by (simp add: wget_command_def ascii_def)
    then have b: "sublist (ascii ''\" \"'' @ ?u @ ascii ''\"'')
        (echo_command ?name @ wget_command ?p ?u)"
      by (simp only: sublist_appendI)
    from e False have "sublist (echo_command ?name @ wget_command ?p ?u) ?script"
      by (simp add: script_entry_download)
    with a b False show ?thesis
      by (auto intro: sublist_order.order_trans)
  qed
qed

text \<open>A name and a URL with a double quote inside, in the script as they came.\<close>

theorem script_embeds_raw_text_witness:
  "sublist (ascii ''echo \"Downloading: a\"b\"'')
     (concat (script_writes (ascii ''downloaded_Site'')
        [[ascii ''name'' \<mapsto> ascii ''a\"b'', ascii ''publicUrl'' \<mapsto> ascii ''https://x/\"y'']])) \<and>
   sublist (ascii ''\" \"https://x/\"y\"'')
     (concat (script_writes (ascii ''downloaded_Site'')
        [[ascii ''name'' \<mapsto> ascii ''a\"b'', ascii ''publicUrl'' \<mapsto> ascii ''https://x/\"y'']]))"
proof -
  let ?d = "[ascii ''name'' \<mapsto> ascii ''a\"b'', ascii ''publicUrl'' \<mapsto> ascii ''https://x/\"y'']"
  have n: "dict_get ?d (ascii ''name'') (ascii ''no-name-found'') = ascii ''a\"b''"
    by (simp add: dict_get_def ascii_def)
  have u: "dict_get ?d (ascii ''publicUrl'') (ascii ''no-url-found'') = ascii ''https://x/\"y''"
    by (simp add: dict_get_def ascii_def)
  have c: "\<not> str_contains (ascii ''https://x/\"y'') (ascii ''no-url-found'')"
    by (simp add: str_eval)
  have m: "?d \<in> set [?d]"
    by simp
  have e1: "ascii ''echo \"Downloading: '' @ ascii ''a\"b'' @ ascii ''\"'' =
            ascii ''echo \"Downloading: a\"b\"''"
    by (simp add: ascii_def)
  have e2: "ascii ''\" \"'' @ ascii ''https://x/\"y'' @ ascii ''\"'' = ascii ''\" \"https://x/\"y\"''"
    by (simp add: ascii_def)
  from script_embeds_raw_text [OF m, of "ascii ''downloaded_Site''"] show ?thesis
    unfolding n u e1 e2 using c by simp
qed



section \<open>Properties of the pipeline\<close>

text \<open>
  C6: when the host does not end with \<^verbatim>\<open>powerdms.com\<close>, or the path has no non-empty
  segment, the run ends with the invalid-URL diagnostic and has written no file.
\<close>

theorem invalid_site_url_writes_nothing:
  assumes "urlparse url = ParseResult domain p"
    and "\<not> endswith domain (ascii ''powerdms.com'') \<or>
         (\<forall>segment \<in> set (split (of_char CHR ''/'') p). segment = [])"
  shows "scrape_powerdms_site urlparse session_get url =
           \<lparr>message = Not_valid_PowerDMS_URL, files = []\<rparr>"
proof -
  from assms(2) have "\<not> endswith domain (ascii ''powerdms.com'') \<or>
      filter (\<lambda>part. part \<noteq> []) (split (of_char CHR ''/'') p) = []"
    by (auto simp: filter_empty_conv)
  with assms(1) show ?thesis
    by (auto simp: scrape_powerdms_site_def Let_def)
qed

text \<open>A foreign host, and a PowerDMS host with the path \<^verbatim>\<open>//\<close>.\<close>

theorem invalid_site_url_writes_nothing_witness:
  "scrape_powerdms_site (\<lambda>u. ParseResult (ascii ''example.com'') (ascii ''/Site/tree/1''))
       (\<lambda>u. GetRaises) (ascii ''https://example.com/Site/tree/1'') =
     \<lparr>message = Not_valid_PowerDMS_URL, files = []\<rparr> \<and>
   scrape_powerdms_site (\<lambda>u. ParseResult (ascii ''public.powerdms.com'') (ascii ''//''))
       (\<lambda>u. GetRaises) (ascii ''https://public.powerdms.com//'') =
     \<lparr>message = Not_valid_PowerDMS_URL, files = []\<rparr>"
proof -
  have a: "\<not> endswith (ascii ''example.com'') (ascii ''powerdms.com'')"
    by (simp add: str_eval)
  have b: "\<forall>segment \<in> set (split (of_char CHR ''/'') (ascii ''//'')). segment = []"
    by (simp add: ascii_def)
  show ?thesis
    using invalid_site_url_writes_nothing
            [of "\<lambda>u. ParseResult (ascii ''example.com'') (ascii ''/Site/tree/1'')"
                "ascii ''https://example.com/Site/tree/1''" "ascii ''example.com''"
                "ascii ''/Site/tree/1''" "\<lambda>u. GetRaises"]
          invalid_site_url_writes_nothing
            [of "\<lambda>u. ParseResult (ascii ''public.powerdms.com'') (ascii ''//'')"
                "ascii ''https://public.powerdms.com//''" "ascii ''public.powerdms.com''"
                "ascii ''//''" "\<lambda>u. GetRaises"]
          a b
    by blast
qed

text \<open>
  C7: when the endpoint answers with a JSON object whose \<^verbatim>\<open>data\<close> is the empty list,
  the run reports that no documents were found, which is not the diagnostic of a
  missing or ill-typed \<^verbatim>\<open>data\<close>, and writes no file.
\<close>

theorem empty_catalog_writes_nothing:
  assumes "urlparse url = ParseResult domain p"
    and "endswith domain (ascii ''powerdms.com'')"
    and "filter (\<lambda>part. part \<noteq> []) (split (of_char CHR ''/'') p) = site_name # rest"
    and "session_get (ascii ''https://'' @ domain @ ascii ''/'' @ site_name @ ascii ''/documents'') =
           GetReturns (Response status body (JsonReturns (JsonDict (Some (DataList [])))))"
    and "\<not> (400 \<le> status \<and> status < 600)"
  shows "scrape_powerdms_site urlparse session_get url =
           \<lparr>message = No_public_documents, files = []\<rparr>"
  using assms
  by (auto simp: scrape_powerdms_site_def Let_def fetch_and_write_def handle_data_def)

theorem empty_catalog_writes_nothing_witness:
  "scrape_powerdms_site (\<lambda>u. ParseResult (ascii ''public.powerdms.com'') (ascii ''/Site/tree/1''))
     (\<lambda>u. GetReturns (Response 200 (ascii ''{}'') (JsonReturns (JsonDict (Some (DataList []))))))
     (ascii ''https://public.powerdms.com/Site/tree/1'') =
   \<lparr>message = No_public_documents, files = []\<rparr>"
proof -
  have a: "endswith (ascii ''public.powerdms.com'') (ascii ''powerdms.com'')"
    by (simp add: str_eval)
  have b: "filter (\<lambda>part. part \<noteq> []) (split (of_char CHR ''/'') (ascii ''/Site/tree/1'')) =
             ascii ''Site'' # [ascii ''tree'', ascii ''1'']"
    by (simp add: ascii_def)
  have c: "\<not> (400 \<le> (200::nat) \<and> (200::nat) < 600)"
    by simp
  show ?thesis
    using empty_catalog_writes_nothing
            [of "\<lambda>u. ParseResult (ascii ''public.powerdms.com'') (ascii ''/Site/tree/1'')"
                "ascii ''https://public.powerdms.com/Site/tree/1''"
                "ascii ''public.powerdms.com''" "ascii ''/Site/tree/1''" "ascii ''Site''"
                "[ascii ''tree'', ascii ''1'']"
                "\<lambda>u. GetReturns (Response 200 (ascii ''{}'')
                       (JsonReturns (JsonDict (Some (DataList [])))))"
                200 "ascii ''{}''"] a b c
    by simp
qed

text \<open>The structural failure next to it: no \<^verbatim>\<open>data\<close> list, and \<^verbatim>\<open>debug.json\<close> is written.\<close>

lemma no_data_list_writes_debug_json:
  "d = None \<or> d = Some DataOther \<Longrightarrow>
   handle_data site_name (JsonDict d) =
     \<lparr>message = No_data_list, files = [(ascii ''debug.json'', JsonDump (JsonDict d))]\<rparr>"
  by (auto simp: handle_data_def)

text \<open>
  What a body that is not JSON leaves behind, by the class of the exception that
  \<^verbatim>\<open>response.json()\<close> raises: the diagnostic file exists only when the exception is
  a \<^verbatim>\<open>json.JSONDecodeError\<close> and not a \<^verbatim>\<open>RequestException\<close>. Neither the CSV nor
  the script is written in any case.
\<close>

lemma decode_failure_files:
  assumes "session_get api = GetReturns r"
    and "\<not> (400 \<le> status_code r \<and> status_code r < 600)"
    and "response_json r = JsonRaises rq js"
  shows "files (fetch_and_write session_get site_name api) =
           (if js \<and> \<not> rq then [(ascii ''error_response.html'', Text (response_text r))] else [])"
  using assms by (auto simp: fetch_and_write_def handle_exception_def)

text \<open>
  C4: when the body of the response is not JSON, the raw body is written to
  \<^verbatim>\<open>error_response.html\<close>, and no CSV and no script are produced.
  The handler that writes the file is \<^verbatim>\<open>except json.JSONDecodeError\<close>, the third of
  the \<^verbatim>\<open>try\<close>; the second is \<^verbatim>\<open>except requests.exceptions.RequestException\<close>. The
  exception that \<^verbatim>\<open>response.json()\<close> raises (requests 2.27 and later) is an instance
  of both classes, so the second handler takes it: the run prints the request error
  and writes no file at all.
\<close>

theorem decode_failure_caught_as_request_error:
  "scrape_powerdms_site (\<lambda>u. ParseResult (ascii ''public.powerdms.com'') (ascii ''/Site/tree/1''))
     (\<lambda>u. GetReturns (Response 200 (ascii ''<html>'') (JsonRaises True True)))
     (ascii ''https://public.powerdms.com/Site/tree/1'') =
   \<lparr>message = REQUEST_ERROR, files = []\<rparr>"
  by (simp add: run_eval str_eval)

theorem decode_failure_writes_no_diagnostic:
  "files (scrape_powerdms_site
            (\<lambda>u. ParseResult (ascii ''public.powerdms.com'') (ascii ''/Site/tree/1''))
            (\<lambda>u. GetReturns (Response 200 (ascii ''<html>'') (JsonRaises True True)))
            (ascii ''https://public.powerdms.com/Site/tree/1'')) = [] \<and>
   message (scrape_powerdms_site
            (\<lambda>u. ParseResult (ascii ''public.powerdms.com'') (ascii ''/Site/tree/1''))
            (\<lambda>u. GetReturns (Response 200 (ascii ''<html>'') (JsonRaises True True)))
            (ascii ''https://public.powerdms.com/Site/tree/1'')) \<noteq> Failed_to_decode_JSON"
  using decode_failure_caught_as_request_error by simp





end
